theory Spec2Isabelle
  imports Main "HOL-Library.Char_ord" "HOL-Library.List_Lexorder"
begin

section \<open>Data model of \<open>ops/external-prs/src/ossd/index.ts\<close>\<close>

text \<open>
  The types of lines 149-223 of the source, as records. Several types of the source
  share field names (\<open>address\<close>, \<open>status\<close>, \<open>added\<close>); the selectors are then
  written with the record's name, as in \<open>BlockchainValidationItem.address\<close>.
  JavaScript numbers that hold counts are modelled as \<open>int\<close>.
\<close>

record ProjectSummary =
  project_slug :: string
  status :: string
  blockchain_added :: int
  blockchain_removed :: int
  blockchain_unchanged :: int
  blockchain_unique_added :: int
  blockchain_unique_removed :: int
  blockchain_unique_unchanged :: int
  code_added :: int
  code_removed :: int
  code_unchanged :: int
  package_added :: int
  package_removed :: int
  package_unchanged :: int

record BlockchainStatus =
  project_slug :: string
  address :: string
  tag :: string
  network :: string
  project_relation_status :: string
  address_status :: string
  network_status :: string
  network_tag_status :: string

record BlockchainValidationItem =
  address :: string
  tags :: "string list"
  networks :: "string list"

text \<open>The \<open>projects\<close> object handed to the list-changes template (lines 487-491).\<close>

record ProjectCounts =
  added :: int
  removed :: int
  unchanged :: int

record Summary =
  added :: int
  removed :: int
  existing :: int

text \<open>A row of \<open>SELECT * FROM artifacts_summary\<close> (lines 379-384).\<close>

record ArtifactsSummaryRow =
  type :: string
  status :: string
  count :: int
  unique_count :: int

text \<open>
  \<open>ChangeSummary.artifacts.summary\<close>: each entry is read from the \<open>summaries\<close>
  object by key (lines 411-413) and is \<open>undefined\<close> (\<open>None\<close>) when no row of that
  type was seen.
\<close>

record ArtifactSummaries =
  blockchain :: "Summary option"
  code :: "Summary option"
  package :: "Summary option"

text \<open>
  \<open>ChangeSummary\<close> with the nesting flattened: \<open>summary\<close> is
  \<open>artifacts.summary\<close> and \<open>toValidate\<close> is \<open>artifacts.toValidate.blockchain\<close>.
  The three \<open>artifacts.status\<close> lists are query results that no modelled operation
  reads, and are left out.
\<close>

record ChangeSummary =
  projects :: "ProjectSummary list"
  summary :: ArtifactSummaries
  toValidate :: "BlockchainValidationItem list"

text \<open>An entry of the local \<open>validationErrors\<close> array of \<open>validate\<close> (line 507).\<close>

record ValidationError =
  address :: string
  error :: string

text \<open>A row of the \<open>unchanged_projects\<close> query (lines 474-478).\<close>

record UnchangedProjectsRow =
  total :: int

section \<open>Errors and external collaborators\<close>

text \<open>
  What the modelled methods can throw: an \<open>Error\<close> with its message (line 247), the
  \<open>TypeError\<close> JavaScript raises when a property of \<open>undefined\<close> is read
  (\<open>validator.isEOA\<close> with no validator under that key), and whatever a validator's
  promise rejects with.
\<close>

datatype exn = Error string | TypeError | Rejected string

text \<open>
  \<open>EVMNetworkValidator\<close> comes from the package
  \<open>@opensource-observer/oss-artifact-validators\<close>: three asynchronous predicates on an
  address. Awaiting one gives a boolean or throws.
\<close>

record EVMNetworkValidator =
  isEOA :: "string \<Rightarrow> exn + bool"
  isContract :: "string \<Rightarrow> exn + bool"
  isDeployer :: "string \<Rightarrow> exn + bool"

text \<open>The two validator factories imported at lines 16-20, as parameters.\<close>

record ValidatorsPackage =
  OptimismValidator :: "string \<Rightarrow> EVMNetworkValidator"
  EthereumValidator :: "string \<Rightarrow> EVMNetworkValidator"

text \<open>
  The calls made on validators are effects on the outside world; they are logged as
  (network, predicate, address) in the order they are made.
\<close>

datatype predicate = IsEOA | IsContract | IsDeployer

type_synonym call = "string \<times> predicate \<times> string"

text \<open>
  A comment left on the pull request through \<open>appUtils.leaveCommentOnPr\<close>: the pull
  request number and the message, which is a template with its parameters (rendering is
  the template engine's business).
\<close>

record ListChangesParams =
  projects :: ProjectCounts
  artifacts :: ArtifactSummaries

datatype message =
  ListChangesMessage ListChangesParams
| ValidationErrorsMessage "ValidationError list"

type_synonym comment = "int \<times> message"

record world =
  calls :: "call list"
  comments :: "comment list"

text \<open>
  The fields of the class \<open>OSSDirectoryPullRequest\<close> that the modelled methods use:
  \<open>args.pr\<close>, \<open>validators\<close> (a plain object used as a dictionary) and \<open>changes\<close>.
\<close>

record OSSDirectoryPullRequest =
  pr :: int
  validators :: "string \<rightharpoonup> EVMNetworkValidator"
  changes :: ChangeSummary

section \<open>Summary aggregation in \<open>initialize\<close> (lines 385-402)\<close>

text \<open>
  The body of the loop over the rows of \<open>artifacts_summary\<close>. \<open>summaries\<close> is a
  dictionary from type to \<open>Summary\<close>; a \<open>Summary\<close> object is always truthy, so
  \<open>!summaries[row.type]\<close> holds exactly when the key is absent. The second test of the
  \<open>else\<close> branch compares \<open>row.type\<close>, as the source does.
\<close>

definition summarise_row ::
    "(string \<rightharpoonup> Summary) \<Rightarrow> ArtifactsSummaryRow \<Rightarrow> (string \<rightharpoonup> Summary)" where
  "summarise_row summaries row =
     (case summaries (type row) of
        None \<Rightarrow>
          summaries(type row \<mapsto>
            \<lparr>added = (if ArtifactsSummaryRow.status row = ''ADDED'' then count row else 0),
             removed = (if ArtifactsSummaryRow.status row = ''REMOVED'' then count row else 0),
             existing = (if ArtifactsSummaryRow.status row = ''EXISTING'' then count row else 0)\<rparr>)
      | Some s \<Rightarrow>
          if ArtifactsSummaryRow.status row = ''ADDED''
          then summaries(type row \<mapsto> s\<lparr>Summary.added := count row\<rparr>)
          else if type row = ''REMOVED''
          then summaries(type row \<mapsto> s\<lparr>Summary.removed := count row\<rparr>)
          else summaries(type row \<mapsto> s\<lparr>existing := count row\<rparr>))"

fun build_summaries ::
    "(string \<rightharpoonup> Summary) \<Rightarrow> ArtifactsSummaryRow list \<Rightarrow> (string \<rightharpoonup> Summary)" where
  "build_summaries summaries [] = summaries"
| "build_summaries summaries (row # rows) = build_summaries (summarise_row summaries row) rows"

text \<open>
  The part of \<open>initialize\<close> after the queries have run (lines 376-437): the results of
  the queries are parameters, since the SQL lives outside this file.
\<close>

definition initialize ::
    "ArtifactsSummaryRow list \<Rightarrow> ProjectSummary list \<Rightarrow> BlockchainValidationItem list
      \<Rightarrow> ChangeSummary" where
  "initialize artifactsSummary changed_projects to_validate =
     (let summaries = build_summaries Map.empty artifactsSummary in
      \<lparr>ChangeSummary.projects = changed_projects,
       summary = \<lparr>blockchain = summaries ''BLOCKCHAIN'',
                  code = summaries ''CODE'',
                  package = summaries ''PACKAGE''\<rparr>,
       toValidate = to_validate\<rparr>)"

text \<open>
  \<open>init\<close> (lines 231-240): the constructor stores the arguments and an empty
  \<open>validators\<close> object, and \<open>initialize\<close> then fills \<open>changes\<close>.
\<close>

definition init ::
    "int \<Rightarrow> ArtifactsSummaryRow list \<Rightarrow> ProjectSummary list \<Rightarrow> BlockchainValidationItem list
      \<Rightarrow> OSSDirectoryPullRequest" where
  "init pr_number artifactsSummary changed_projects to_validate =
     \<lparr>pr = pr_number,
      validators = Map.empty,
      changes = initialize artifactsSummary changed_projects to_validate\<rparr>"

section \<open>\<open>list\<close> (lines 468-495)\<close>

definition list_op ::
    "UnchangedProjectsRow list \<Rightarrow> OSSDirectoryPullRequest \<Rightarrow> world \<Rightarrow> world" where
  "list_op unchangedProjects this w =
     (let unchangedProjectsCount =
            (if length unchangedProjects = 0 then 0 else int (length unchangedProjects));
          updatedProjectsCount = int (length (ChangeSummary.projects (changes this)))
      in w\<lparr>comments := comments w @
            [(pr this,
              ListChangesMessage
                \<lparr>ListChangesParams.projects =
                   \<lparr>ProjectCounts.added = updatedProjectsCount,
                    removed = 0,
                    unchanged = unchangedProjectsCount\<rparr>,
                 artifacts = summary (changes this)\<rparr>)]\<rparr>)"

section \<open>\<open>loadValidators\<close> and \<open>validate\<close> (lines 242-257 and 497-562)\<close>

text \<open>
  \<open>process.env\<close> is a dictionary of strings. \<open>!v\<close> holds for \<open>undefined\<close> and for the
  empty string.
\<close>

fun falsy :: "string option \<Rightarrow> bool" where
  "falsy None = True"
| "falsy (Some s) = (s = [])"

definition loadValidators ::
    "ValidatorsPackage \<Rightarrow> (string \<rightharpoonup> string) \<Rightarrow> OSSDirectoryPullRequest
      \<Rightarrow> exn + OSSDirectoryPullRequest" where
  "loadValidators pkg env this =
     (let optimismRpc = env ''OPTIMISM_RPC_URL'';
          mainnetRpc = env ''MAINNET_RPC_URL''
      in if falsy optimismRpc \<or> falsy mainnetRpc
         then Inl (Error ''RPC URLs are required to do validation'')
         else (case (optimismRpc, mainnetRpc) of
                 (Some o_url, Some m_url) \<Rightarrow>
                   Inr (this\<lparr>validators :=
                          (validators this)
                            (''optimism'' \<mapsto> OptimismValidator pkg o_url,
                             ''mainnet'' \<mapsto> EthereumValidator pkg m_url)\<rparr>)
               | _ \<Rightarrow> Inl (Error ''RPC URLs are required to do validation'')))"

text \<open>The method of the validator that a predicate names, and the tag and message of
  each of the three blocks of lines 519-542.\<close>

fun invoke :: "predicate \<Rightarrow> EVMNetworkValidator \<Rightarrow> string \<Rightarrow> exn + bool" where
  "invoke IsEOA v a = isEOA v a"
| "invoke IsContract v a = isContract v a"
| "invoke IsDeployer v a = isDeployer v a"

fun tag_of :: "predicate \<Rightarrow> string" where
  "tag_of IsEOA = ''eoa''"
| "tag_of IsContract = ''contract''"
| "tag_of IsDeployer = ''deployer''"

fun reason_of :: "predicate \<Rightarrow> string" where
  "reason_of IsEOA = ''is not an EOA''"
| "reason_of IsContract = ''is not a Contract''"
| "reason_of IsDeployer = ''is not a Deployer''"

text \<open>
  One block \<open>if (item.tags.indexOf(tag) !== -1) { if (!(await validator.p(address)))
  { validationErrors.push(...) } }\<close>. \<open>validator\<close> is \<open>this.validators[network]\<close>,
  which is \<open>undefined\<close> for a key that was never stored; reading its property throws
  before any call is made. The entry pushed has the address and the message only.
\<close>

definition check_tag ::
    "predicate \<Rightarrow> EVMNetworkValidator option \<Rightarrow> BlockchainValidationItem \<Rightarrow> string
      \<Rightarrow> ValidationError list \<Rightarrow> call list \<Rightarrow> (exn + ValidationError list) \<times> call list" where
  "check_tag p validator item net validationErrors cs =
     (if tag_of p \<in> set (tags item) then
        (case validator of
           None \<Rightarrow> (Inl TypeError, cs)
         | Some v \<Rightarrow>
             (case invoke p v (BlockchainValidationItem.address item) of
                Inl e \<Rightarrow> (Inl e, cs @ [(net, p, BlockchainValidationItem.address item)])
              | Inr ok \<Rightarrow>
                  (if \<not> ok
                   then (Inr (validationErrors @
                              [\<lparr>ValidationError.address = BlockchainValidationItem.address item,
                                error = reason_of p\<rparr>]),
                         cs @ [(net, p, BlockchainValidationItem.address item)])
                   else (Inr validationErrors,
                         cs @ [(net, p, BlockchainValidationItem.address item)]))))
      else (Inr validationErrors, cs))"

text \<open>The body of the loop over \<open>item.networks\<close> (lines 512-542).\<close>

definition validate_network ::
    "(string \<rightharpoonup> EVMNetworkValidator) \<Rightarrow> BlockchainValidationItem \<Rightarrow> string
      \<Rightarrow> ValidationError list \<Rightarrow> call list \<Rightarrow> (exn + ValidationError list) \<times> call list" where
  "validate_network vs item net validationErrors cs =
     (let validator = vs net in
      case check_tag IsEOA validator item net validationErrors cs of
        (Inl e, cs1) \<Rightarrow> (Inl e, cs1)
      | (Inr errs1, cs1) \<Rightarrow>
          (case check_tag IsContract validator item net errs1 cs1 of
             (Inl e, cs2) \<Rightarrow> (Inl e, cs2)
           | (Inr errs2, cs2) \<Rightarrow> check_tag IsDeployer validator item net errs2 cs2))"

text \<open>The two nested \<open>for ... of\<close> loops (lines 509-544); a throw leaves both.\<close>

fun for_networks ::
    "(string \<rightharpoonup> EVMNetworkValidator) \<Rightarrow> BlockchainValidationItem \<Rightarrow> string list
      \<Rightarrow> ValidationError list \<Rightarrow> call list \<Rightarrow> (exn + ValidationError list) \<times> call list" where
  "for_networks vs item [] validationErrors cs = (Inr validationErrors, cs)"
| "for_networks vs item (net # rest) validationErrors cs =
     (case validate_network vs item net validationErrors cs of
        (Inl e, cs') \<Rightarrow> (Inl e, cs')
      | (Inr errs', cs') \<Rightarrow> for_networks vs item rest errs' cs')"

fun for_items ::
    "(string \<rightharpoonup> EVMNetworkValidator) \<Rightarrow> BlockchainValidationItem list
      \<Rightarrow> ValidationError list \<Rightarrow> call list \<Rightarrow> (exn + ValidationError list) \<times> call list" where
  "for_items vs [] validationErrors cs = (Inr validationErrors, cs)"
| "for_items vs (item # rest) validationErrors cs =
     (case for_networks vs item (networks item) validationErrors cs of
        (Inl e, cs') \<Rightarrow> (Inl e, cs')
      | (Inr errs', cs') \<Rightarrow> for_items vs rest errs' cs')"

text \<open>
  \<open>validate\<close>: load the validators, run the loops from an empty \<open>validationErrors\<close>,
  and leave a comment when the array is not empty. The result is what the method throws
  (or \<open>Inr ()\<close>), the object and the outside world afterwards.
\<close>

definition validate ::
    "ValidatorsPackage \<Rightarrow> (string \<rightharpoonup> string) \<Rightarrow> OSSDirectoryPullRequest \<Rightarrow> world
      \<Rightarrow> (exn + unit) \<times> OSSDirectoryPullRequest \<times> world" where
  "validate pkg env this w =
     (case loadValidators pkg env this of
        Inl e \<Rightarrow> (Inl e, this, w)
      | Inr this1 \<Rightarrow>
          (case for_items (validators this1) (toValidate (changes this1)) [] (calls w) of
             (Inl e, cs) \<Rightarrow> (Inl e, this1, w\<lparr>calls := cs\<rparr>)
           | (Inr validationErrors, cs) \<Rightarrow>
               if length validationErrors \<noteq> 0
               then (Inr (), this1,
                     w\<lparr>calls := cs,
                       comments := comments w @
                         [(pr this1, ValidationErrorsMessage validationErrors)]\<rparr>)
               else (Inr (), this1, w\<lparr>calls := cs\<rparr>)))"

section \<open>The queries behind \<open>initialize\<close>\<close>

text \<open>
  \<open>initialize\<close> computes the classified diff by running SQL templates
  (\<open>queries/*.sql\<close>, lines 343-374 and 405-434), which are not among the source
  files. The definitions of this section stand for them.
\<close>

text \<open>
  Modelled from the spec: the normalized rows of a snapshot, which the source leaves to
  the queries \<open>code_artifacts\<close>, \<open>package_artifacts\<close> and \<open>blockchain_artifacts\<close>.
  Spec 3: a code or package artifact is (project slug, url) and a blockchain artifact is
  (project slug, address, network, tags).
\<close>

record Snapshot =
  code_artifacts :: "(string \<times> string) list"
  package_artifacts :: "(string \<times> string) list"
  blockchain_artifacts :: "(string \<times> string \<times> string \<times> string list) list"

text \<open>
  Modelled from the spec: the status classifier, which the source leaves to the queries
  \<open>blockchain_status\<close>, \<open>code_status\<close> and \<open>package_status\<close>. Spec 4.2: with
  \<open>K_main\<close> and \<open>K_pr\<close> the key sets of the two sides, every key of
  \<open>K_pr \ K_main\<close> is ADDED, every key of \<open>K_main \ K_pr\<close> is REMOVED and every key
  of \<open>K_main \<inter> K_pr\<close> is EXISTING; a key that occurs several times on one side is
  one entity.
\<close>

definition classify :: "('r \<Rightarrow> 'k) \<Rightarrow> 'r list \<Rightarrow> 'r list \<Rightarrow> ('k \<times> string) list" where
  "classify keyFn mainRows prRows =
     (let K_main = remdups (map keyFn mainRows);
          K_pr = remdups (map keyFn prRows)
      in map (\<lambda>k. (k, ''ADDED'')) (filter (\<lambda>k. k \<notin> set K_main) K_pr) @
         map (\<lambda>k. (k, ''REMOVED'')) (filter (\<lambda>k. k \<notin> set K_pr) K_main) @
         map (\<lambda>k. (k, ''EXISTING'')) (filter (\<lambda>k. k \<in> set K_pr) K_main))"

text \<open>
  Modelled from the spec: the identity key of a blockchain artifact, spec 3:
  (project slug, address, network).
\<close>

fun blockchain_key :: "string \<times> string \<times> string \<times> string list \<Rightarrow> string \<times> string \<times> string" where
  "blockchain_key (slug, addr, net, ts) = (slug, addr, net)"

text \<open>
  Modelled from the spec: the table \<open>artifacts_summary\<close>, which the source reads at
  lines 376-384 and whose query is missing. Spec 4.3: the aggregator counts the
  classified rows of an artifact type by status, and the unique variant counts distinct
  values (addresses, for blockchain artifacts). A status with no row gives no row of the
  table.
\<close>

definition summary_rows ::
    "string \<Rightarrow> ('k \<Rightarrow> 'u) \<Rightarrow> ('k \<times> string) list \<Rightarrow> ArtifactsSummaryRow list" where
  "summary_rows t uniq classified =
     concat (map (\<lambda>s. let group = filter (\<lambda>r. snd r = s) classified
                      in if group = [] then []
                         else [\<lparr>type = t, status = s, count = int (length group),
                                unique_count = int (length (remdups (map (uniq \<circ> fst) group)))\<rparr>])
                 [''ADDED'', ''REMOVED'', ''EXISTING''])"

text \<open>
  Modelled from the spec: the rows of \<open>artifacts_summary\<close> for two snapshots, that is
  the counts by status of the three artifact types, each classified on its identity key
  (spec 3 and 4.3). The type names are the keys read at lines 411-413.
\<close>

definition artifacts_summary :: "Snapshot \<Rightarrow> Snapshot \<Rightarrow> ArtifactsSummaryRow list" where
  "artifacts_summary main_snapshot pr_snapshot =
     summary_rows ''BLOCKCHAIN'' (\<lambda>(slug, addr, net). addr)
       (classify blockchain_key (blockchain_artifacts main_snapshot)
          (blockchain_artifacts pr_snapshot)) @
     summary_rows ''CODE'' id
       (classify id (code_artifacts main_snapshot) (code_artifacts pr_snapshot)) @
     summary_rows ''PACKAGE'' id
       (classify id (package_artifacts main_snapshot) (package_artifacts pr_snapshot))"

text \<open>
  Modelled from the spec: the selection of the query
  \<open>changed_blockchain_artifacts_to_validate\<close>, which is missing. Spec 4.4: select
  every classified blockchain row whose \<open>address_status\<close>, \<open>network_status\<close> or
  \<open>network_tag_status\<close> is ADDED.
\<close>

definition selected :: "BlockchainStatus \<Rightarrow> bool" where
  "selected r \<longleftrightarrow>
     address_status r = ''ADDED'' \<or> network_status r = ''ADDED'' \<or>
     network_tag_status r = ''ADDED''"

text \<open>
  Modelled from the spec: the query \<open>changed_blockchain_artifacts_to_validate\<close> read at
  lines 430-433, which is missing. Spec 4.4: group the selected rows by address, and
  union their tags and networks into one item per address.
\<close>

definition changed_blockchain_artifacts_to_validate ::
    "BlockchainStatus list \<Rightarrow> BlockchainValidationItem list" where
  "changed_blockchain_artifacts_to_validate rows =
     (let sel = filter selected rows
      in map (\<lambda>a. \<lparr>BlockchainValidationItem.address = a,
                    tags = remdups (map tag (filter (\<lambda>r. BlockchainStatus.address r = a) sel)),
                    networks =
                      remdups (map network (filter (\<lambda>r. BlockchainStatus.address r = a) sel))\<rparr>)
           (remdups (map BlockchainStatus.address sel)))"

section \<open>Notions used to state the properties of the validation run\<close>

text \<open>
  The predicates that the tags of an item select, in the order of the three blocks of
  the loop body, and the calls and failures they give on one network.
\<close>

definition matching :: "BlockchainValidationItem \<Rightarrow> predicate list" where
  "matching item = filter (\<lambda>p. tag_of p \<in> set (tags item)) [IsEOA, IsContract, IsDeployer]"

definition expected_calls :: "BlockchainValidationItem \<Rightarrow> string \<Rightarrow> call list" where
  "expected_calls item net =
     map (\<lambda>p. (net, p, BlockchainValidationItem.address item)) (matching item)"

text \<open>The entry that a call gives when it resolves to \<open>false\<close>.\<close>

fun call_failure :: "call \<Rightarrow> ValidationError" where
  "call_failure (net, p, a) = \<lparr>ValidationError.address = a, error = reason_of p\<rparr>"

text \<open>Whether a call resolves to \<open>false\<close> with the validators registered in \<open>vs\<close>.\<close>

fun answers_false :: "(string \<rightharpoonup> EVMNetworkValidator) \<Rightarrow> call \<Rightarrow> bool" where
  "answers_false vs (net, p, a) =
     (case vs net of None \<Rightarrow> False | Some v \<Rightarrow> invoke p v a = Inr False)"

text \<open>Whether a call resolves at all (to \<open>true\<close> or \<open>false\<close>) rather than throwing.\<close>

fun resolves :: "(string \<rightharpoonup> EVMNetworkValidator) \<Rightarrow> call \<Rightarrow> bool" where
  "resolves vs (net, p, a) =
     (case vs net of
        None \<Rightarrow> False
      | Some v \<Rightarrow> (case invoke p v a of Inl e \<Rightarrow> False | Inr b \<Rightarrow> True))"

definition all_calls :: "BlockchainValidationItem list \<Rightarrow> call list" where
  "all_calls items =
     concat (map (\<lambda>item. concat (map (expected_calls item) (networks item))) items)"

text \<open>
  What a call throws, if it throws: the \<open>TypeError\<close> of a missing validator, or what
  the predicate rejects with.
\<close>

fun thrown_by :: "(string \<rightharpoonup> EVMNetworkValidator) \<Rightarrow> call \<Rightarrow> exn option" where
  "thrown_by vs (net, p, a) =
     (case vs net of
        None \<Rightarrow> Some TypeError
      | Some v \<Rightarrow> (case invoke p v a of Inl e \<Rightarrow> Some e | Inr b \<Rightarrow> None))"

text \<open>A call reaches the validator, and is logged, only when there is a validator.\<close>

fun logged :: "(string \<rightharpoonup> EVMNetworkValidator) \<Rightarrow> call \<Rightarrow> call list" where
  "logged vs (net, p, a) = (case vs net of None \<Rightarrow> [] | Some v \<Rightarrow> [(net, p, a)])"

text \<open>
  A list of calls made one after the other from left to right: a call that throws ends
  the pass with what it threw, and none of the calls after it is made; a call that
  answers \<open>false\<close> appends its entry.
\<close>

fun run_calls ::
    "(string \<rightharpoonup> EVMNetworkValidator) \<Rightarrow> call list \<Rightarrow> ValidationError list \<Rightarrow> call list
      \<Rightarrow> (exn + ValidationError list) \<times> call list" where
  "run_calls vs [] errs cs = (Inr errs, cs)"
| "run_calls vs (c # rest) errs cs =
     (case thrown_by vs c of
        Some e \<Rightarrow> (Inl e, cs @ logged vs c)
      | None \<Rightarrow>
          run_calls vs rest
            (if answers_false vs c then errs @ [call_failure c] else errs) (cs @ [c]))"

section \<open>Example inputs\<close>

text \<open>Validators whose three predicates all give the same answer, or all reject.\<close>

definition answering :: "bool \<Rightarrow> EVMNetworkValidator" where
  "answering b =
     \<lparr>isEOA = (\<lambda>a. Inr b), isContract = (\<lambda>a. Inr b), isDeployer = (\<lambda>a. Inr b)\<rparr>"

definition rejecting :: EVMNetworkValidator where
  "rejecting =
     \<lparr>isEOA = (\<lambda>a. Inl (Rejected ''rpc failure'')),
      isContract = (\<lambda>a. Inl (Rejected ''rpc failure'')),
      isDeployer = (\<lambda>a. Inl (Rejected ''rpc failure''))\<rparr>"

definition example_package :: "bool \<Rightarrow> ValidatorsPackage" where
  "example_package b =
     \<lparr>OptimismValidator = (\<lambda>url. answering b), EthereumValidator = (\<lambda>url. answering b)\<rparr>"

definition example_env :: "string \<rightharpoonup> string" where
  "example_env =
     [''OPTIMISM_RPC_URL'' \<mapsto> ''https://optimism.example'',
      ''MAINNET_RPC_URL'' \<mapsto> ''https://mainnet.example'']"

definition example_item :: "string \<Rightarrow> string list \<Rightarrow> string list \<Rightarrow> BlockchainValidationItem" where
  "example_item a ts ns = \<lparr>BlockchainValidationItem.address = a, tags = ts, networks = ns\<rparr>"

definition empty_world :: world where
  "empty_world = \<lparr>calls = [], comments = []\<rparr>"

definition example_validators :: "bool \<Rightarrow> (string \<rightharpoonup> EVMNetworkValidator)" where
  "example_validators b = [''optimism'' \<mapsto> answering b, ''mainnet'' \<mapsto> answering b]"

definition example_snapshot :: Snapshot where
  "example_snapshot =
     \<lparr>code_artifacts = [(''p1'', ''https://github.com/p1/app'')],
      package_artifacts = [],
      blockchain_artifacts =
        [(''p1'', ''0xABC'', ''optimism'', [''eoa'']),
         (''p1'', ''0xABC'', ''mainnet'', [''eoa''])]\<rparr>"

definition example_row ::
    "string \<Rightarrow> string \<Rightarrow> string \<Rightarrow> string \<Rightarrow> string \<Rightarrow> string \<Rightarrow> BlockchainStatus" where
  "example_row a t n sa sn st =
     \<lparr>project_slug = ''p1'', address = a, tag = t, network = n,
      project_relation_status = ''EXISTING'', address_status = sa, network_status = sn,
      network_tag_status = st\<rparr>"

section \<open>The validation loops, step by step\<close>

lemmas ex_defs = example_item_def example_validators_def answering_def rejecting_def
  all_calls_def expected_calls_def matching_def


lemma check_tag_skip:
  "tag_of p \<notin> set (tags item) \<Longrightarrow> check_tag p validator item net errs cs = (Inr errs, cs)"
  by (simp add: check_tag_def)

lemma check_tag_resolved:
  assumes "tag_of p \<in> set (tags item)"
    and "resolves vs (net, p, BlockchainValidationItem.address item)"
  shows "check_tag p (vs net) item net errs cs =
     (Inr (errs @ map call_failure
             (filter (answers_false vs) [(net, p, BlockchainValidationItem.address item)])),
      cs @ [(net, p, BlockchainValidationItem.address item)])"
  using assms by (auto simp: check_tag_def split: option.splits sum.splits)

lemma check_tag_thrown:
  assumes "tag_of p \<in> set (tags item)"
    and "\<not> resolves vs (net, p, BlockchainValidationItem.address item)"
  shows "\<exists>e cs'. check_tag p (vs net) item net errs cs = (Inl e, cs')"
  using assms by (auto simp: check_tag_def split: option.splits sum.splits)

lemma validate_network_resolved:
  assumes "list_all (resolves vs) (expected_calls item net)"
  shows "validate_network vs item net errs cs =
     (Inr (errs @ map call_failure (filter (answers_false vs) (expected_calls item net))),
      cs @ expected_calls item net)"
  using assms
  by (cases "tag_of IsEOA \<in> set (tags item)"; cases "tag_of IsContract \<in> set (tags item)";
      cases "tag_of IsDeployer \<in> set (tags item)")
     (simp_all add: validate_network_def expected_calls_def matching_def
        check_tag_resolved check_tag_skip
        del: tag_of.simps resolves.simps answers_false.simps call_failure.simps)

lemma validate_network_thrown:
  assumes "\<not> list_all (resolves vs) (expected_calls item net)"
  shows "\<exists>e cs'. validate_network vs item net errs cs = (Inl e, cs')"
proof -
  let ?a = "BlockchainValidationItem.address item"
  have t: "\<And>p validationErrors cs0.
      tag_of p \<in> set (tags item) \<Longrightarrow> \<not> resolves vs (net, p, ?a) \<Longrightarrow>
      \<exists>e cs'. check_tag p (vs net) item net validationErrors cs0 = (Inl e, cs')"
    by (rule check_tag_thrown)
  from assms obtain p where p: "p \<in> set (matching item)" "\<not> resolves vs (net, p, ?a)"
    by (auto simp: expected_calls_def list_all_iff)
  from p(1) have tag: "tag_of p \<in> set (tags item)"
    unfolding matching_def set_filter by blast
  obtain r1 cs1 where c1: "check_tag IsEOA (vs net) item net errs cs = (r1, cs1)"
    by force
  show ?thesis
  proof (cases r1)
    case (Inl e)
    with c1 show ?thesis by (simp add: validate_network_def)
  next
    case r1: (Inr errs1)
    obtain r2 cs2 where c2: "check_tag IsContract (vs net) item net errs1 cs1 = (r2, cs2)"
      by force
    show ?thesis
    proof (cases r2)
      case (Inl e)
      with c1 c2 r1 show ?thesis by (simp add: validate_network_def)
    next
      case r2: (Inr errs2)
      show ?thesis
      proof (cases p)
        case IsEOA
        with t[OF tag p(2), of errs cs] c1 r1 show ?thesis by simp
      next
        case IsContract
        with t[OF tag p(2), of errs1 cs1] c2 r2 show ?thesis by simp
      next
        case IsDeployer
        with c1 c2 r1 r2 t[OF tag p(2), of errs2 cs2] show ?thesis
          by (auto simp: validate_network_def)
      qed
    qed
  qed
qed

lemma for_networks_resolved:
  "list_all (resolves vs) (concat (map (expected_calls item) ns)) \<Longrightarrow>
   for_networks vs item ns errs cs =
     (Inr (errs @ map call_failure
             (filter (answers_false vs) (concat (map (expected_calls item) ns)))),
      cs @ concat (map (expected_calls item) ns))"
proof (induction ns arbitrary: errs cs)
  case Nil
  show ?case by simp
next
  case (Cons n ns)
  from Cons.prems have h: "list_all (resolves vs) (expected_calls item n)"
    and t: "list_all (resolves vs) (concat (map (expected_calls item) ns))"
    by simp_all
  show ?case
    by (simp add: validate_network_resolved[OF h] Cons.IH[OF t])
qed

lemma for_networks_thrown:
  "\<not> list_all (resolves vs) (concat (map (expected_calls item) ns)) \<Longrightarrow>
   \<exists>e cs'. for_networks vs item ns errs cs = (Inl e, cs')"
proof (induction ns arbitrary: errs cs)
  case Nil
  then show ?case by simp
next
  case (Cons n ns)
  show ?case
  proof (cases "list_all (resolves vs) (expected_calls item n)")
    case True
    with Cons.prems have "\<not> list_all (resolves vs) (concat (map (expected_calls item) ns))"
      by simp
    from Cons.IH[OF this] show ?thesis
      by (simp add: validate_network_resolved[OF True])
  next
    case False
    from validate_network_thrown[OF this, of errs cs] show ?thesis by auto
  qed
qed

lemma for_items_resolved:
  "list_all (resolves vs) (all_calls items) \<Longrightarrow>
   for_items vs items errs cs =
     (Inr (errs @ map call_failure (filter (answers_false vs) (all_calls items))),
      cs @ all_calls items)"
proof (induction items arbitrary: errs cs)
  case Nil
  show ?case by (simp add: all_calls_def)
next
  case (Cons item items)
  from Cons.prems
  have h: "list_all (resolves vs) (concat (map (expected_calls item) (networks item)))"
    and t: "list_all (resolves vs) (all_calls items)"
    by (simp_all add: all_calls_def)
  show ?case
    using Cons.IH[OF t] by (simp add: for_networks_resolved[OF h] all_calls_def)
qed

lemma for_items_thrown:
  "\<not> list_all (resolves vs) (all_calls items) \<Longrightarrow>
   \<exists>e cs'. for_items vs items errs cs = (Inl e, cs')"
proof (induction items arbitrary: errs cs)
  case Nil
  then show ?case by (simp add: all_calls_def)
next
  case (Cons item items)
  show ?case
  proof (cases "list_all (resolves vs) (concat (map (expected_calls item) (networks item)))")
    case True
    with Cons.prems have "\<not> list_all (resolves vs) (all_calls items)"
      by (simp add: all_calls_def)
    from Cons.IH[OF this] show ?thesis
      by (simp add: for_networks_resolved[OF True])
  next
    case False
    from for_networks_thrown[OF this, of errs cs] show ?thesis by auto
  qed
qed

lemma matching_member:
  "p \<in> set (matching item) \<longleftrightarrow> tag_of p \<in> set (tags item)"
proof -
  have "p \<in> set [IsEOA, IsContract, IsDeployer]" by (cases p) simp_all
  then show ?thesis unfolding matching_def set_filter by blast
qed

lemma all_calls_member:
  assumes "item \<in> set items" and "net \<in> set (networks item)" and "p \<in> set (matching item)"
  shows "(net, p, BlockchainValidationItem.address item) \<in> set (all_calls items)"
proof -
  let ?c = "(net, p, BlockchainValidationItem.address item)"
  from assms(3) have "?c \<in> set (expected_calls item net)"
    unfolding expected_calls_def set_map by (rule imageI)
  with assms(2) have "\<exists>n \<in> set (networks item). ?c \<in> set (expected_calls item n)" ..
  then have "?c \<in> set (concat (map (expected_calls item) (networks item)))"
    by simp
  with assms(1)
  have "\<exists>i \<in> set items. ?c \<in> set (concat (map (expected_calls i) (networks i)))" ..
  then show ?thesis
    by (simp add: all_calls_def)
qed

section \<open>The loops as one pass over the calls\<close>

lemma resolves_iff: "resolves vs c \<longleftrightarrow> thrown_by vs c = None"
  by (cases c) (simp split: option.splits sum.splits)

lemma run_calls_append:
  "run_calls vs (xs @ ys) errs cs =
     (case run_calls vs xs errs cs of
        (Inl e, cs') \<Rightarrow> (Inl e, cs')
      | (Inr errs', cs') \<Rightarrow> run_calls vs ys errs' cs')"
  by (induction xs arbitrary: errs cs) (simp_all split: option.splits)

lemma check_tag_run:
  "check_tag p (vs net) item net errs cs =
     (if tag_of p \<in> set (tags item)
      then run_calls vs [(net, p, BlockchainValidationItem.address item)] errs cs
      else (Inr errs, cs))"
  by (auto simp: check_tag_def split: option.splits sum.splits)

lemma expected_calls_split:
  "expected_calls item net =
     (if tag_of IsEOA \<in> set (tags item)
      then [(net, IsEOA, BlockchainValidationItem.address item)] else []) @
     (if tag_of IsContract \<in> set (tags item)
      then [(net, IsContract, BlockchainValidationItem.address item)] else []) @
     (if tag_of IsDeployer \<in> set (tags item)
      then [(net, IsDeployer, BlockchainValidationItem.address item)] else [])"
  by (simp add: expected_calls_def matching_def)

lemma validate_network_run:
  "validate_network vs item net errs cs = run_calls vs (expected_calls item net) errs cs"
  unfolding expected_calls_split validate_network_def Let_def check_tag_run run_calls_append
  by (cases "tag_of IsEOA \<in> set (tags item)"; cases "tag_of IsContract \<in> set (tags item)";
      cases "tag_of IsDeployer \<in> set (tags item)")
     (simp_all del: tag_of.simps thrown_by.simps logged.simps answers_false.simps
        call_failure.simps split: prod.splits sum.splits)

lemma for_networks_run:
  "for_networks vs item ns errs cs =
     run_calls vs (concat (map (expected_calls item) ns)) errs cs"
  by (induction ns arbitrary: errs cs)
     (simp_all add: validate_network_run run_calls_append split: prod.splits sum.splits)

lemma for_items_run:
  "for_items vs items errs cs = run_calls vs (all_calls items) errs cs"
proof (induction items arbitrary: errs cs)
  case Nil
  show ?case by (simp add: all_calls_def)
next
  case (Cons item items)
  have "all_calls (item # items) =
      concat (map (expected_calls item) (networks item)) @ all_calls items"
    by (simp add: all_calls_def)
  then show ?case
    by (simp add: for_networks_run run_calls_append Cons.IH split: prod.splits sum.splits)
qed

lemma run_calls_stop:
  "list_all (resolves vs) done_calls \<Longrightarrow> thrown_by vs c = Some e \<Longrightarrow>
   run_calls vs (done_calls @ c # rest) errs cs = (Inl e, cs @ done_calls @ logged vs c)"
  by (induction done_calls arbitrary: errs cs) (simp_all add: resolves_iff)

lemma all_calls_append: "all_calls (xs @ ys) = all_calls xs @ all_calls ys"
  by (simp add: all_calls_def)

lemma for_items_prefix_thrown:
  assumes "\<not> list_all (resolves vs) (all_calls pre)"
  shows "for_items vs (pre @ post) errs cs = for_items vs pre errs cs"
proof -
  from for_items_thrown[OF assms, of errs cs]
  obtain e cs' where "for_items vs pre errs cs = (Inl e, cs')" by blast
  then have "run_calls vs (all_calls pre) errs cs = (Inl e, cs')"
    by (simp add: for_items_run)
  then show ?thesis
    by (simp add: for_items_run all_calls_append run_calls_append)
qed

lemma validate_loops_thrown:
  assumes "loadValidators pkg env this = Inr this1"
    and "for_items (validators this1) (toValidate (changes this1)) [] (calls w) = (Inl e, cs)"
  shows "validate pkg env this w = (Inl e, this1, w\<lparr>calls := cs\<rparr>)"
  using assms by (simp add: validate_def)

lemma for_items_stop:
  assumes "all_calls items = done_calls @ c # rest"
    and "list_all (resolves vs) done_calls" and "thrown_by vs c = Some e"
  shows "for_items vs items errs cs = (Inl e, cs @ done_calls @ logged vs c)"
  unfolding for_items_run assms(1) using assms(2,3) by (rule run_calls_stop)

section \<open>\<open>loadValidators\<close> and the end of \<open>validate\<close>\<close>

lemma validate_missing_url:
  assumes "falsy (env ''OPTIMISM_RPC_URL'') \<or> falsy (env ''MAINNET_RPC_URL'')"
  shows "validate pkg env this w =
           (Inl (Error ''RPC URLs are required to do validation''), this, w)"
  using assms by (simp add: validate_def loadValidators_def)

lemma loadValidators_urls:
  assumes "env ''OPTIMISM_RPC_URL'' = Some o_url" and "o_url \<noteq> []"
    and "env ''MAINNET_RPC_URL'' = Some m_url" and "m_url \<noteq> []"
  shows "loadValidators pkg env this =
           Inr (this\<lparr>validators := (validators this)
                  (''optimism'' \<mapsto> OptimismValidator pkg o_url,
                   ''mainnet'' \<mapsto> EthereumValidator pkg m_url)\<rparr>)"
  using assms by (simp add: loadValidators_def)

lemma falsy_iff: "\<not> falsy x \<longleftrightarrow> (\<exists>s. x = Some s \<and> s \<noteq> [])"
  by (cases x) simp_all

lemma validate_object:
  "fst (snd (validate pkg env this w)) =
     (case loadValidators pkg env this of Inl e \<Rightarrow> this | Inr this1 \<Rightarrow> this1)"
  by (simp add: validate_def split: sum.splits prod.splits)

lemma loadValidators_pr: "loadValidators pkg env this = Inr this1 \<Longrightarrow> pr this1 = pr this"
  by (auto simp: loadValidators_def Let_def split: if_splits option.splits)

section \<open>The summary loop on rows that are all EXISTING\<close>

lemma classify_self:
  "classify keyFn rows rows = map (\<lambda>k. (k, ''EXISTING'')) (remdups (map keyFn rows))"
  by (simp add: classify_def)

lemma summary_rows_existing:
  "summary_rows t uniq (map (\<lambda>k. (k, ''EXISTING'')) ks) =
     (if ks = [] then []
      else [\<lparr>type = t, status = ''EXISTING'', count = int (length ks),
              unique_count = int (length (remdups (map uniq ks)))\<rparr>])"
  by (simp add: summary_rows_def o_def)

lemma artifacts_summary_self_status:
  "row \<in> set (artifacts_summary s s) \<Longrightarrow>
     ArtifactsSummaryRow.status row = ''EXISTING'' \<and> type row \<noteq> ''REMOVED''"
  by (auto simp: artifacts_summary_def classify_self summary_rows_existing split: if_splits)

lemma summarise_row_quiet:
  assumes "\<And>s. summaries t = Some s \<Longrightarrow> Summary.added s = 0 \<and> Summary.removed s = 0"
    and "ArtifactsSummaryRow.status row = ''EXISTING''" and "type row \<noteq> ''REMOVED''"
    and "summarise_row summaries row t = Some s'"
  shows "Summary.added s' = 0 \<and> Summary.removed s' = 0"
proof (cases "t = type row")
  case False
  with assms(4) have "summaries t = Some s'"
    by (simp add: summarise_row_def split: option.splits if_splits)
  then show ?thesis by (rule assms(1))
next
  case True
  show ?thesis
  proof (cases "summaries (type row)")
    case None
    with assms(2,4) True show ?thesis
      by (auto simp: summarise_row_def)
  next
    case (Some s)
    with True assms(1) have "Summary.added s = 0 \<and> Summary.removed s = 0" by simp
    with Some assms(2,3,4) True show ?thesis
      by (auto simp: summarise_row_def)
  qed
qed

lemma build_summaries_quiet:
  assumes "\<forall>row \<in> set rows. ArtifactsSummaryRow.status row = ''EXISTING'' \<and> type row \<noteq> ''REMOVED''"
    and "\<forall>t s. summaries t = Some s \<longrightarrow> Summary.added s = 0 \<and> Summary.removed s = 0"
  shows "\<forall>t s. build_summaries summaries rows t = Some s \<longrightarrow>
     Summary.added s = 0 \<and> Summary.removed s = 0"
  using assms
proof (induction rows arbitrary: summaries)
  case Nil
  then show ?case by simp
next
  case (Cons row rows)
  have "\<forall>t s. summarise_row summaries row t = Some s \<longrightarrow>
          Summary.added s = 0 \<and> Summary.removed s = 0"
  proof (intro allI impI)
    fix t s assume "summarise_row summaries row t = Some s"
    with Cons.prems show "Summary.added s = 0 \<and> Summary.removed s = 0"
      by (intro summarise_row_quiet[of summaries t row s]) simp_all
  qed
  moreover from Cons.prems(1)
  have "\<forall>row \<in> set rows. ArtifactsSummaryRow.status row = ''EXISTING'' \<and> type row \<noteq> ''REMOVED''"
    by simp
  ultimately have "\<forall>t s. build_summaries (summarise_row summaries row) rows t = Some s \<longrightarrow>
     Summary.added s = 0 \<and> Summary.removed s = 0"
    by (rule Cons.IH[rotated])
  then show ?case by simp
qed

lemma to_validate_drop:
  assumes "\<not> selected r"
  shows "changed_blockchain_artifacts_to_validate (xs @ r # ys) =
         changed_blockchain_artifacts_to_validate (xs @ ys)"
  using assms by (simp add: changed_blockchain_artifacts_to_validate_def)

section \<open>Summary aggregation\<close>

text \<open>
  Claim C1. The summary built from the rows of \<open>artifacts_summary\<close> should have, for
  each artifact type, \<open>added\<close>, \<open>removed\<close> and \<open>existing\<close> equal to the counts of the
  rows of status ADDED, REMOVED and EXISTING. The loop does not do this: once a type has
  an entry, a REMOVED row is tested with \<open>row.type == "REMOVED"\<close> (line 396), which
  never holds for the types BLOCKCHAIN, CODE and PACKAGE, and its count is stored in
  \<open>existing\<close>, where the EXISTING row then overwrites it. With 3 blockchain rows
  added, 2 removed and 4 existing, the summary reports no removal, and its fields sum to
  7 instead of 9.
\<close>

theorem initialize_misroutes_removed:
  "blockchain (summary (initialize
      [\<lparr>type = ''BLOCKCHAIN'', status = ''ADDED'', count = 3, unique_count = 3\<rparr>,
       \<lparr>type = ''BLOCKCHAIN'', status = ''REMOVED'', count = 2, unique_count = 2\<rparr>,
       \<lparr>type = ''BLOCKCHAIN'', status = ''EXISTING'', count = 4, unique_count = 4\<rparr>]
      [] []))
   = Some \<lparr>added = 3, removed = 0, existing = 4\<rparr>"
  by (simp add: initialize_def summarise_row_def)

text \<open>
  Claim C5. Comparing a snapshot with itself classifies every row as EXISTING, whatever
  the key, and each of the three summaries that \<open>initialize\<close> then builds from the
  table \<open>artifacts_summary\<close> (its rows in any order) has \<open>added = 0\<close> and
  \<open>removed = 0\<close>. A type with no artifact has no row in the table and its summary is
  \<open>undefined\<close>; the statement is about the summaries that exist.
\<close>

theorem self_diff_existing:
  "(\<forall>r \<in> set (classify keyFn rows rows). snd r = ''EXISTING'') \<and>
   (set summary_table = set (artifacts_summary s s) \<longrightarrow>
      (\<forall>sm \<in> {blockchain (summary (initialize summary_table changed_projects to_validate)),
               code (summary (initialize summary_table changed_projects to_validate)),
               package (summary (initialize summary_table changed_projects to_validate))}.
         \<forall>x. sm = Some x \<longrightarrow> Summary.added x = 0 \<and> Summary.removed x = 0))"
proof (intro conjI impI)
  show "\<forall>r \<in> set (classify keyFn rows rows). snd r = ''EXISTING''"
    by (auto simp: classify_self)
next
  assume eq: "set summary_table = set (artifacts_summary s s)"
  have "\<forall>row \<in> set summary_table.
      ArtifactsSummaryRow.status row = ''EXISTING'' \<and> type row \<noteq> ''REMOVED''"
    using eq artifacts_summary_self_status by blast
  moreover have "\<forall>t x. Map.empty t = Some x \<longrightarrow> Summary.added x = 0 \<and> Summary.removed x = 0"
    by simp
  ultimately
  have q: "\<forall>t x. build_summaries Map.empty summary_table t = Some x \<longrightarrow>
             Summary.added x = 0 \<and> Summary.removed x = 0"
    by (rule build_summaries_quiet)
  show "\<forall>sm \<in> {blockchain (summary (initialize summary_table changed_projects to_validate)),
               code (summary (initialize summary_table changed_projects to_validate)),
               package (summary (initialize summary_table changed_projects to_validate))}.
         \<forall>x. sm = Some x \<longrightarrow> Summary.added x = 0 \<and> Summary.removed x = 0"
    using q unfolding initialize_def by (simp add: Let_def)
qed

theorem self_diff_existing_witness:
  "classify blockchain_key (blockchain_artifacts example_snapshot)
     (blockchain_artifacts example_snapshot) =
     [((''p1'', ''0xABC'', ''optimism''), ''EXISTING''),
      ((''p1'', ''0xABC'', ''mainnet''), ''EXISTING'')] \<and>
   blockchain (summary (initialize (artifacts_summary example_snapshot example_snapshot) [] []))
     = Some \<lparr>added = 0, removed = 0, existing = 2\<rparr> \<and>
   code (summary (initialize (artifacts_summary example_snapshot example_snapshot) [] []))
     = Some \<lparr>added = 0, removed = 0, existing = 1\<rparr> \<and>
   package (summary (initialize (artifacts_summary example_snapshot example_snapshot) [] []))
     = None"
  using self_diff_existing[of blockchain_key "blockchain_artifacts example_snapshot"
      "artifacts_summary example_snapshot example_snapshot" example_snapshot "[]" "[]"]
  by (simp add: example_snapshot_def classify_def artifacts_summary_def summary_rows_def
      initialize_def summarise_row_def)

section \<open>Selection for validation\<close>

text \<open>
  Claim C7. Every item of the to-validate selection stands for a blockchain row of the
  same address whose \<open>address_status\<close>, \<open>network_status\<close> or \<open>network_tag_status\<close>
  is ADDED, and so does each of its networks and of its tags; a row none of whose three statuses is
  ADDED (a row that is only REMOVED or EXISTING) changes nothing in the selection,
  wherever it stands among the classified rows.
\<close>

theorem to_validate_added_only:
  "(\<forall>item \<in> set (changed_blockchain_artifacts_to_validate rows).
      \<exists>r \<in> set rows.
        BlockchainStatus.address r = BlockchainValidationItem.address item \<and>
        (address_status r = ''ADDED'' \<or> network_status r = ''ADDED'' \<or>
         network_tag_status r = ''ADDED'')) \<and>
   (\<forall>item \<in> set (changed_blockchain_artifacts_to_validate rows).
      \<forall>n \<in> set (networks item).
        \<exists>r \<in> set rows.
          BlockchainStatus.address r = BlockchainValidationItem.address item \<and> network r = n \<and>
          (address_status r = ''ADDED'' \<or> network_status r = ''ADDED'' \<or>
           network_tag_status r = ''ADDED'')) \<and>
   (\<forall>item \<in> set (changed_blockchain_artifacts_to_validate rows).
      \<forall>t \<in> set (tags item).
        \<exists>r \<in> set rows.
          BlockchainStatus.address r = BlockchainValidationItem.address item \<and> tag r = t \<and>
          (address_status r = ''ADDED'' \<or> network_status r = ''ADDED'' \<or>
           network_tag_status r = ''ADDED'')) \<and>
   (address_status r \<noteq> ''ADDED'' \<and> network_status r \<noteq> ''ADDED'' \<and>
    network_tag_status r \<noteq> ''ADDED'' \<longrightarrow>
      changed_blockchain_artifacts_to_validate (xs @ r # ys) =
      changed_blockchain_artifacts_to_validate (xs @ ys))"
proof (intro conjI impI)
  show "\<forall>item \<in> set (changed_blockchain_artifacts_to_validate rows).
      \<exists>r \<in> set rows.
        BlockchainStatus.address r = BlockchainValidationItem.address item \<and>
        (address_status r = ''ADDED'' \<or> network_status r = ''ADDED'' \<or>
         network_tag_status r = ''ADDED'')"
    by (auto simp: changed_blockchain_artifacts_to_validate_def selected_def)
next
  show "\<forall>item \<in> set (changed_blockchain_artifacts_to_validate rows).
      \<forall>n \<in> set (networks item).
        \<exists>r \<in> set rows.
          BlockchainStatus.address r = BlockchainValidationItem.address item \<and> network r = n \<and>
          (address_status r = ''ADDED'' \<or> network_status r = ''ADDED'' \<or>
           network_tag_status r = ''ADDED'')"
    by (auto simp: changed_blockchain_artifacts_to_validate_def selected_def)
next
  show "\<forall>item \<in> set (changed_blockchain_artifacts_to_validate rows).
      \<forall>t \<in> set (tags item).
        \<exists>r \<in> set rows.
          BlockchainStatus.address r = BlockchainValidationItem.address item \<and> tag r = t \<and>
          (address_status r = ''ADDED'' \<or> network_status r = ''ADDED'' \<or>
           network_tag_status r = ''ADDED'')"
    by (auto simp: changed_blockchain_artifacts_to_validate_def selected_def)
next
  assume "address_status r \<noteq> ''ADDED'' \<and> network_status r \<noteq> ''ADDED'' \<and>
    network_tag_status r \<noteq> ''ADDED''"
  then have "\<not> selected r" by (simp add: selected_def)
  then show "changed_blockchain_artifacts_to_validate (xs @ r # ys) =
      changed_blockchain_artifacts_to_validate (xs @ ys)"
    by (rule to_validate_drop)
qed

theorem to_validate_added_only_witness:
  "changed_blockchain_artifacts_to_validate
     [example_row ''0xDEF'' ''contract'' ''mainnet'' ''ADDED'' ''ADDED'' ''ADDED'',
      example_row ''0xABC'' ''eoa'' ''optimism'' ''REMOVED'' ''REMOVED'' ''REMOVED'',
      example_row ''0xDEF'' ''deployer'' ''mainnet'' ''ADDED'' ''ADDED'' ''ADDED''] =
     [\<lparr>BlockchainValidationItem.address = ''0xDEF'', tags = [''contract'', ''deployer''],
       networks = [''mainnet'']\<rparr>]"
  using to_validate_added_only[of
      "[example_row ''0xDEF'' ''contract'' ''mainnet'' ''ADDED'' ''ADDED'' ''ADDED'',
        example_row ''0xABC'' ''eoa'' ''optimism'' ''REMOVED'' ''REMOVED'' ''REMOVED'',
        example_row ''0xDEF'' ''deployer'' ''mainnet'' ''ADDED'' ''ADDED'' ''ADDED'']"
      "example_row ''0xABC'' ''eoa'' ''optimism'' ''REMOVED'' ''REMOVED'' ''REMOVED''"
      "[example_row ''0xDEF'' ''contract'' ''mainnet'' ''ADDED'' ''ADDED'' ''ADDED'']"
      "[example_row ''0xDEF'' ''deployer'' ''mainnet'' ''ADDED'' ''ADDED'' ''ADDED'']"]
  by (simp add: example_row_def changed_blockchain_artifacts_to_validate_def selected_def)

section \<open>The comment of \<open>list\<close>\<close>

text \<open>
  Claim C8. \<open>list\<close> leaves one comment whose project counts are: \<open>added\<close>, the length
  of the changed-projects list, whatever the statuses of its entries; \<open>removed\<close>, the
  constant 0; \<open>unchanged\<close>, the number of rows that the \<open>unchanged_projects\<close> query
  returned, not the \<open>total\<close> held in those rows.
\<close>

theorem list_op_counts:
  "list_op unchangedProjects this w =
     w\<lparr>comments := comments w @
        [(pr this,
          ListChangesMessage
            \<lparr>ListChangesParams.projects =
               \<lparr>ProjectCounts.added = int (length (ChangeSummary.projects (changes this))),
                removed = 0,
                unchanged = int (length unchangedProjects)\<rparr>,
             artifacts = summary (changes this)\<rparr>)]\<rparr>"
  by (simp add: list_op_def)

section \<open>The validation run\<close>

text \<open>
  Claim C2. The source has no \<open>UnsupportedNetworkError\<close> and records nothing for a
  network without a validator. What it does for an item and one of its networks with no
  validator registered: when the item carries none of the tags \<open>eoa\<close>, \<open>contract\<close>
  and \<open>deployer\<close>, the network is passed over, with no call and no entry; when it
  carries one of them, reading the predicate of the missing validator throws a
  \<open>TypeError\<close>, and the whole run over the items ends with a thrown error. The
  run ends there: it is the run over the items up to this one, whatever items follow;
  when the calls before this one resolve, they are the whole call log, so no call is
  made for this network, for the networks after it or for the items after it; and
  \<open>validate\<close> throws the \<open>TypeError\<close> and leaves no comment.
\<close>

theorem unregistered_network:
  assumes "vs net = None" and "item \<in> set items" and "net \<in> set (networks item)"
  shows "validate_network vs item net errs cs =
           (if ''eoa'' \<in> set (tags item) \<or> ''contract'' \<in> set (tags item) \<or>
               ''deployer'' \<in> set (tags item)
            then (Inl TypeError, cs) else (Inr errs, cs)) \<and>
         (''eoa'' \<in> set (tags item) \<or> ''contract'' \<in> set (tags item) \<or>
            ''deployer'' \<in> set (tags item) \<longrightarrow>
          (\<exists>e cs'. for_items vs items errs0 cs0 = (Inl e, cs'))) \<and>
         ((''eoa'' \<in> set (tags item) \<or> ''contract'' \<in> set (tags item) \<or>
            ''deployer'' \<in> set (tags item)) \<and> items = pre @ item # post \<longrightarrow>
          for_items vs items errs0 cs0 = for_items vs (pre @ [item]) errs0 cs0) \<and>
         (all_calls items = done_calls @ (net, p, a) # rest \<and>
          list_all (resolves vs) done_calls \<longrightarrow>
          for_items vs items errs0 cs0 = (Inl TypeError, cs0 @ done_calls)) \<and>
         (loadValidators pkg env this = Inr this1 \<and> validators this1 = vs \<and>
          toValidate (changes this1) = items \<and>
          all_calls items = done_calls @ (net, p, a) # rest \<and>
          list_all (resolves vs) done_calls \<longrightarrow>
          validate pkg env this w =
            (Inl TypeError, this1, w\<lparr>calls := calls w @ done_calls\<rparr>))"
proof -
  let ?hit = "''eoa'' \<in> set (tags item) \<or> ''contract'' \<in> set (tags item) \<or>
            ''deployer'' \<in> set (tags item)"
  have step: "validate_network vs item net errs cs =
           (if ?hit then (Inl TypeError, cs) else (Inr errs, cs))"
    using assms(1)
    by (cases "''eoa'' \<in> set (tags item)"; cases "''contract'' \<in> set (tags item)";
        cases "''deployer'' \<in> set (tags item)")
       (simp_all add: validate_network_def check_tag_def)
  have unresolved: "\<not> list_all (resolves vs) (all_calls its)"
    if hit: ?hit and mem: "item \<in> set its" for its
  proof -
    from hit have "tag_of IsEOA \<in> set (tags item) \<or> tag_of IsContract \<in> set (tags item) \<or>
        tag_of IsDeployer \<in> set (tags item)" by simp
    then obtain q where q: "q \<in> set (matching item)"
      unfolding matching_member by blast
    let ?c = "(net, q, BlockchainValidationItem.address item)"
    have "?c \<in> set (all_calls its)"
      using mem assms(3) q by (rule all_calls_member)
    moreover have "\<not> resolves vs ?c" using assms(1) by simp
    ultimately show ?thesis
      unfolding list_all_iff by blast
  qed
  have run: "\<exists>e cs'. for_items vs items errs0 cs0 = (Inl e, cs')" if ?hit
    using unresolved[OF that assms(2)] by (rule for_items_thrown)
  have cut: "for_items vs items errs0 cs0 = for_items vs (pre @ [item]) errs0 cs0"
    if hit: ?hit and split: "items = pre @ item # post"
  proof -
    have "\<not> list_all (resolves vs) (all_calls (pre @ [item]))"
      using hit by (rule unresolved) simp
    from for_items_prefix_thrown[OF this, of post errs0 cs0] split show ?thesis by simp
  qed
  have thrown: "thrown_by vs (net, p, a) = Some TypeError" and nolog: "logged vs (net, p, a) = []"
    using assms(1) by simp_all
  have stop: "for_items vs items errs0 cs0 = (Inl TypeError, cs0 @ done_calls)"
    if "all_calls items = done_calls @ (net, p, a) # rest" and "list_all (resolves vs) done_calls"
    using for_items_stop[OF that thrown, of errs0 cs0] nolog by simp
  have top: "validate pkg env this w =
            (Inl TypeError, this1, w\<lparr>calls := calls w @ done_calls\<rparr>)"
    if l: "loadValidators pkg env this = Inr this1" and v: "validators this1 = vs"
      and t: "toValidate (changes this1) = items"
      and a: "all_calls items = done_calls @ (net, p, a) # rest"
      and r: "list_all (resolves vs) done_calls"
  proof -
    have "for_items (validators this1) (toValidate (changes this1)) [] (calls w) =
        (Inl TypeError, calls w @ done_calls)"
      unfolding v t using for_items_stop[OF a r thrown, of "[]" "calls w"] nolog by simp
    with l show ?thesis by (rule validate_loops_thrown)
  qed
  show ?thesis
  proof (intro conjI impI)
    show "validate_network vs item net errs cs =
           (if ?hit then (Inl TypeError, cs) else (Inr errs, cs))"
      by (rule step)
  next
    assume ?hit
    then show "\<exists>e cs'. for_items vs items errs0 cs0 = (Inl e, cs')" by (rule run)
  next
    assume "?hit \<and> items = pre @ item # post"
    then show "for_items vs items errs0 cs0 = for_items vs (pre @ [item]) errs0 cs0"
      using cut by simp
  next
    assume "all_calls items = done_calls @ (net, p, a) # rest \<and>
          list_all (resolves vs) done_calls"
    then show "for_items vs items errs0 cs0 = (Inl TypeError, cs0 @ done_calls)"
      using stop by simp
  next
    assume "loadValidators pkg env this = Inr this1 \<and> validators this1 = vs \<and>
          toValidate (changes this1) = items \<and>
          all_calls items = done_calls @ (net, p, a) # rest \<and>
          list_all (resolves vs) done_calls"
    then show "validate pkg env this w =
            (Inl TypeError, this1, w\<lparr>calls := calls w @ done_calls\<rparr>)"
      using top by simp
  qed
qed

text \<open>The theorem at the network \<open>goerli\<close>, for an item tagged \<open>eoa\<close> between two
  items on \<open>mainnet\<close>, and for an item with no checked tag.\<close>

theorem unregistered_network_witness:
  "validate_network (example_validators False)
     (example_item ''0x2'' [''eoa''] [''goerli'']) ''goerli'' [] [] = (Inl TypeError, []) \<and>
   for_items (example_validators False)
     [example_item ''0x1'' [''eoa''] [''mainnet''],
      example_item ''0x2'' [''eoa''] [''goerli''],
      example_item ''0x3'' [''contract''] [''mainnet'']] [] [] =
     (Inl TypeError, [(''mainnet'', IsEOA, ''0x1'')]) \<and>
   fst (validate (example_package False) example_env
     (init 7 [] []
        [example_item ''0x1'' [''eoa''] [''mainnet''],
         example_item ''0x2'' [''eoa''] [''goerli''],
         example_item ''0x3'' [''contract''] [''mainnet'']]) empty_world) = Inl TypeError \<and>
   snd (snd (validate (example_package False) example_env
     (init 7 [] []
        [example_item ''0x1'' [''eoa''] [''mainnet''],
         example_item ''0x2'' [''eoa''] [''goerli''],
         example_item ''0x3'' [''contract''] [''mainnet'']]) empty_world)) =
     \<lparr>calls = [(''mainnet'', IsEOA, ''0x1'')], comments = []\<rparr> \<and>
   validate_network (example_validators False)
     (example_item ''0x3'' [''wallet''] [''goerli'']) ''goerli'' [] [] = (Inr [], [])"
  using unregistered_network[where vs = "example_validators False" and net = "''goerli''"
      and item = "example_item ''0x2'' [''eoa''] [''goerli'']"
      and items = "[example_item ''0x1'' [''eoa''] [''mainnet''],
                    example_item ''0x2'' [''eoa''] [''goerli''],
                    example_item ''0x3'' [''contract''] [''mainnet'']]"
      and pre = "[example_item ''0x1'' [''eoa''] [''mainnet'']]"
      and post = "[example_item ''0x3'' [''contract''] [''mainnet'']]"
      and done_calls = "[(''mainnet'', IsEOA, ''0x1'')]" and p = IsEOA and a = "''0x2''"
      and rest = "[(''mainnet'', IsContract, ''0x3'')]"
      and errs = "[]" and cs = "[]" and ?errs0.0 = "[]" and ?cs0.0 = "[]"
      and pkg = "example_package False" and env = example_env
      and this = "init 7 [] []
        [example_item ''0x1'' [''eoa''] [''mainnet''],
         example_item ''0x2'' [''eoa''] [''goerli''],
         example_item ''0x3'' [''contract''] [''mainnet'']]"
      and ?this1.0 = "(init 7 [] []
        [example_item ''0x1'' [''eoa''] [''mainnet''],
         example_item ''0x2'' [''eoa''] [''goerli''],
         example_item ''0x3'' [''contract''] [''mainnet'']])
          \<lparr>validators := example_validators False\<rparr>"
      and w = empty_world]
    unregistered_network[where vs = "example_validators False" and net = "''goerli''"
      and item = "example_item ''0x3'' [''wallet''] [''goerli'']"
      and items = "[example_item ''0x3'' [''wallet''] [''goerli'']]"
      and errs = "[]" and cs = "[]"]
  by (simp add: ex_defs loadValidators_def example_env_def example_package_def init_def
      initialize_def empty_world_def validate_def validate_network_def check_tag_def)

text \<open>
  Against the claim as the spec states it: with both RPC URLs set, an item tagged
  \<open>eoa\<close> on \<open>goerli\<close> makes \<open>validate\<close> throw; the second item, on \<open>mainnet\<close>, is
  never looked at (no call is made) and nothing is reported.
\<close>

theorem unregistered_network_aborts_run:
  "fst (validate (example_package False) example_env
      (init 7 [] []
         [example_item ''0x1'' [''eoa''] [''goerli''],
          example_item ''0x2'' [''contract''] [''mainnet'']]) empty_world) = Inl TypeError \<and>
   snd (snd (validate (example_package False) example_env
      (init 7 [] []
         [example_item ''0x1'' [''eoa''] [''goerli''],
          example_item ''0x2'' [''contract''] [''mainnet'']]) empty_world)) =
     \<lparr>calls = [], comments = []\<rparr>"
  by (simp add: validate_def loadValidators_def example_env_def example_package_def init_def
      initialize_def empty_world_def example_item_def answering_def validate_network_def
      check_tag_def)

text \<open>
  Claim C3. The loops have no handler for a thrown error. What holds: when every call
  that the items ask for resolves (to \<open>true\<close> or \<open>false\<close>), the run goes through all
  the items, makes every one of these calls, and gives the complete list of failures
  instead of stopping at the first one; the list is empty when no call answers
  \<open>false\<close>. The first call that throws ends the run with what it threw: the call
  log holds the calls before it and this call (when there was a validator to call) and
  nothing after, the run is the run over the items up to the one that throws, whatever
  items follow, and \<open>validate\<close> throws the same error and leaves no comment.
\<close>

theorem for_items_complete:
  "(list_all (resolves vs) (all_calls items) \<longrightarrow>
      for_items vs items [] cs =
        (Inr (map call_failure (filter (answers_false vs) (all_calls items))),
         cs @ all_calls items) \<and>
      (list_all (\<lambda>c. \<not> answers_false vs c) (all_calls items) \<longrightarrow>
         fst (for_items vs items [] cs) = Inr [])) \<and>
   (all_calls items = done_calls @ c # rest \<and> list_all (resolves vs) done_calls \<and>
    thrown_by vs c = Some e \<longrightarrow>
      for_items vs items [] cs = (Inl e, cs @ done_calls @ logged vs c)) \<and>
   (\<not> list_all (resolves vs) (all_calls pre) \<longrightarrow>
      for_items vs (pre @ post) [] cs = for_items vs pre [] cs) \<and>
   (loadValidators pkg env this = Inr this1 \<and>
    all_calls (toValidate (changes this1)) = done_calls @ c # rest \<and>
    list_all (resolves (validators this1)) done_calls \<and>
    thrown_by (validators this1) c = Some e \<longrightarrow>
      validate pkg env this w =
        (Inl e, this1, w\<lparr>calls := calls w @ done_calls @ logged (validators this1) c\<rparr>))"
proof (intro conjI impI)
  assume a: "list_all (resolves vs) (all_calls items)"
  from for_items_resolved[OF a, of "[]" cs]
  show "for_items vs items [] cs =
        (Inr (map call_failure (filter (answers_false vs) (all_calls items))),
         cs @ all_calls items)" by simp
next
  assume a: "list_all (resolves vs) (all_calls items)"
    and b: "list_all (\<lambda>c. \<not> answers_false vs c) (all_calls items)"
  from b have "filter (answers_false vs) (all_calls items) = []"
    by (simp add: list_all_iff filter_empty_conv)
  with for_items_resolved[OF a, of "[]" cs]
  show "fst (for_items vs items [] cs) = Inr []" by simp
next
  assume "all_calls items = done_calls @ c # rest \<and> list_all (resolves vs) done_calls \<and>
    thrown_by vs c = Some e"
  then show "for_items vs items [] cs = (Inl e, cs @ done_calls @ logged vs c)"
    using for_items_stop by blast
next
  assume "\<not> list_all (resolves vs) (all_calls pre)"
  then show "for_items vs (pre @ post) [] cs = for_items vs pre [] cs"
    by (rule for_items_prefix_thrown)
next
  assume h: "loadValidators pkg env this = Inr this1 \<and>
    all_calls (toValidate (changes this1)) = done_calls @ c # rest \<and>
    list_all (resolves (validators this1)) done_calls \<and>
    thrown_by (validators this1) c = Some e"
  then have "for_items (validators this1) (toValidate (changes this1)) [] (calls w) =
      (Inl e, calls w @ done_calls @ logged (validators this1) c)"
    using for_items_stop by blast
  with h show "validate pkg env this w =
        (Inl e, this1, w\<lparr>calls := calls w @ done_calls @ logged (validators this1) c\<rparr>)"
    using validate_loops_thrown by blast
qed

theorem for_items_complete_witness:
  "for_items (example_validators False)
     [example_item ''0xB'' [''eoa''] [''optimism'', ''mainnet''],
      example_item ''0xA'' [''deployer'', ''contract''] [''mainnet'']] [] [] =
     (Inr [\<lparr>ValidationError.address = ''0xB'', error = ''is not an EOA''\<rparr>,
           \<lparr>ValidationError.address = ''0xB'', error = ''is not an EOA''\<rparr>,
           \<lparr>ValidationError.address = ''0xA'', error = ''is not a Contract''\<rparr>,
           \<lparr>ValidationError.address = ''0xA'', error = ''is not a Deployer''\<rparr>],
      [(''optimism'', IsEOA, ''0xB''), (''mainnet'', IsEOA, ''0xB''),
       (''mainnet'', IsContract, ''0xA''), (''mainnet'', IsDeployer, ''0xA'')]) \<and>
   fst (for_items (example_validators True)
     [example_item ''0xB'' [''eoa''] [''optimism'', ''mainnet''],
      example_item ''0xA'' [''deployer'', ''contract''] [''mainnet'']] [] []) = Inr [] \<and>
   for_items [''optimism'' \<mapsto> rejecting, ''mainnet'' \<mapsto> answering False]
     [example_item ''0x1'' [''eoa''] [''mainnet''],
      example_item ''0x2'' [''contract''] [''optimism''],
      example_item ''0x3'' [''deployer''] [''mainnet'']] [] [] =
     (Inl (Rejected ''rpc failure''),
      [(''mainnet'', IsEOA, ''0x1''), (''optimism'', IsContract, ''0x2'')]) \<and>
   for_items [''optimism'' \<mapsto> rejecting, ''mainnet'' \<mapsto> answering False]
     [example_item ''0x1'' [''eoa''] [''mainnet''],
      example_item ''0x2'' [''contract''] [''optimism'']] [] [] =
     (Inl (Rejected ''rpc failure''),
      [(''mainnet'', IsEOA, ''0x1''), (''optimism'', IsContract, ''0x2'')]) \<and>
   fst (validate
      \<lparr>OptimismValidator = (\<lambda>url. rejecting), EthereumValidator = (\<lambda>url. answering False)\<rparr>
      example_env
      (init 7 [] []
         [example_item ''0x1'' [''eoa''] [''mainnet''],
          example_item ''0x2'' [''contract''] [''optimism''],
          example_item ''0x3'' [''deployer''] [''mainnet'']]) empty_world) =
     Inl (Rejected ''rpc failure'') \<and>
   snd (snd (validate
      \<lparr>OptimismValidator = (\<lambda>url. rejecting), EthereumValidator = (\<lambda>url. answering False)\<rparr>
      example_env
      (init 7 [] []
         [example_item ''0x1'' [''eoa''] [''mainnet''],
          example_item ''0x2'' [''contract''] [''optimism''],
          example_item ''0x3'' [''deployer''] [''mainnet'']]) empty_world)) =
     \<lparr>calls = [(''mainnet'', IsEOA, ''0x1''), (''optimism'', IsContract, ''0x2'')],
      comments = []\<rparr>"
  using for_items_complete[where vs = "example_validators False"
      and items = "[example_item ''0xB'' [''eoa''] [''optimism'', ''mainnet''],
                    example_item ''0xA'' [''deployer'', ''contract''] [''mainnet'']]"
      and cs = "[]"]
    for_items_complete[where vs = "example_validators True"
      and items = "[example_item ''0xB'' [''eoa''] [''optimism'', ''mainnet''],
                    example_item ''0xA'' [''deployer'', ''contract''] [''mainnet'']]"
      and cs = "[]"]
    for_items_complete[where vs = "[''optimism'' \<mapsto> rejecting, ''mainnet'' \<mapsto> answering False]"
      and items = "[example_item ''0x1'' [''eoa''] [''mainnet''],
                    example_item ''0x2'' [''contract''] [''optimism''],
                    example_item ''0x3'' [''deployer''] [''mainnet'']]"
      and cs = "[]"
      and done_calls = "[(''mainnet'', IsEOA, ''0x1'')]"
      and c = "(''optimism'', IsContract, ''0x2'')"
      and rest = "[(''mainnet'', IsDeployer, ''0x3'')]"
      and e = "Rejected ''rpc failure''"
      and pre = "[example_item ''0x1'' [''eoa''] [''mainnet''],
                  example_item ''0x2'' [''contract''] [''optimism'']]"
      and post = "[example_item ''0x3'' [''deployer''] [''mainnet'']]"
      and pkg = "\<lparr>OptimismValidator = (\<lambda>url. rejecting),
                    EthereumValidator = (\<lambda>url. answering False)\<rparr>"
      and env = example_env
      and this = "init 7 [] []
         [example_item ''0x1'' [''eoa''] [''mainnet''],
          example_item ''0x2'' [''contract''] [''optimism''],
          example_item ''0x3'' [''deployer''] [''mainnet'']]"
      and ?this1.0 = "(init 7 [] []
         [example_item ''0x1'' [''eoa''] [''mainnet''],
          example_item ''0x2'' [''contract''] [''optimism''],
          example_item ''0x3'' [''deployer''] [''mainnet'']])
          \<lparr>validators := [''optimism'' \<mapsto> rejecting, ''mainnet'' \<mapsto> answering False]\<rparr>"
      and w = empty_world]
  by (simp add: ex_defs loadValidators_def example_env_def init_def
      initialize_def empty_world_def validate_def validate_network_def check_tag_def)

text \<open>
  Against the claim as the spec states it: the validator of the first item rejects, the
  run ends there with the rejection, and the second item, which alone gives a failure,
  is never processed.
\<close>

theorem for_items_aborts_on_rejection:
  "for_items [''optimism'' \<mapsto> rejecting, ''mainnet'' \<mapsto> answering False]
     [example_item ''0x1'' [''eoa''] [''optimism''],
      example_item ''0x2'' [''contract''] [''mainnet'']] [] [] =
     (Inl (Rejected ''rpc failure''), [(''optimism'', IsEOA, ''0x1'')]) \<and>
   for_items [''optimism'' \<mapsto> rejecting, ''mainnet'' \<mapsto> answering False]
     [example_item ''0x2'' [''contract''] [''mainnet'']] [] [] =
     (Inr [\<lparr>ValidationError.address = ''0x2'', error = ''is not a Contract''\<rparr>],
      [(''mainnet'', IsContract, ''0x2'')])"
  by (simp add: ex_defs validate_network_def check_tag_def)

text \<open>
  Claim C4. For an item and a network with a registered validator, when the predicates
  that are invoked resolve: the calls made are exactly \<open>isEOA\<close> for the tag \<open>eoa\<close>,
  \<open>isContract\<close> for \<open>contract\<close> and \<open>isDeployer\<close> for \<open>deployer\<close>, in this order,
  each on the item's address, and each call that resolves to \<open>false\<close> appends exactly
  one entry, made of the address and the reason. The entry has no network field.
\<close>

theorem validate_network_tags:
  assumes "vs net = Some v"
    and "''eoa'' \<in> set (tags item) \<longrightarrow> isEOA v (BlockchainValidationItem.address item) = Inr b1"
    and "''contract'' \<in> set (tags item) \<longrightarrow>
           isContract v (BlockchainValidationItem.address item) = Inr b2"
    and "''deployer'' \<in> set (tags item) \<longrightarrow>
           isDeployer v (BlockchainValidationItem.address item) = Inr b3"
  shows "validate_network vs item net errs cs =
     (Inr (errs @
        (if ''eoa'' \<in> set (tags item) \<and> \<not> b1
         then [\<lparr>ValidationError.address = BlockchainValidationItem.address item,
                 error = ''is not an EOA''\<rparr>] else []) @
        (if ''contract'' \<in> set (tags item) \<and> \<not> b2
         then [\<lparr>ValidationError.address = BlockchainValidationItem.address item,
                 error = ''is not a Contract''\<rparr>] else []) @
        (if ''deployer'' \<in> set (tags item) \<and> \<not> b3
         then [\<lparr>ValidationError.address = BlockchainValidationItem.address item,
                 error = ''is not a Deployer''\<rparr>] else [])),
      cs @
        (if ''eoa'' \<in> set (tags item)
         then [(net, IsEOA, BlockchainValidationItem.address item)] else []) @
        (if ''contract'' \<in> set (tags item)
         then [(net, IsContract, BlockchainValidationItem.address item)] else []) @
        (if ''deployer'' \<in> set (tags item)
         then [(net, IsDeployer, BlockchainValidationItem.address item)] else []))"
  using assms
  by (cases "''eoa'' \<in> set (tags item)"; cases "''contract'' \<in> set (tags item)";
      cases "''deployer'' \<in> set (tags item)")
     (simp_all add: validate_network_def check_tag_def)

text \<open>Scenario B of the spec: tags \<open>contract\<close> and \<open>deployer\<close> on \<open>mainnet\<close>, with
  \<open>isContract\<close> answering \<open>false\<close>.\<close>

theorem validate_network_tags_witness:
  "validate_network
     [''mainnet'' \<mapsto> \<lparr>isEOA = (\<lambda>a. Inr True), isContract = (\<lambda>a. Inr False),
                       isDeployer = (\<lambda>a. Inr True)\<rparr>]
     (example_item ''0xDEF'' [''contract'', ''deployer''] [''mainnet'']) ''mainnet'' [] [] =
     (Inr [\<lparr>ValidationError.address = ''0xDEF'', error = ''is not a Contract''\<rparr>],
      [(''mainnet'', IsContract, ''0xDEF''), (''mainnet'', IsDeployer, ''0xDEF'')])"
  using validate_network_tags[of
      "[''mainnet'' \<mapsto> \<lparr>isEOA = (\<lambda>a. Inr True), isContract = (\<lambda>a. Inr False),
                        isDeployer = (\<lambda>a. Inr True)\<rparr>]"
      "''mainnet''"
      "\<lparr>isEOA = (\<lambda>a. Inr True), isContract = (\<lambda>a. Inr False), isDeployer = (\<lambda>a. Inr True)\<rparr>"
      "example_item ''0xDEF'' [''contract'', ''deployer''] [''mainnet'']" True False True "[]" "[]"]
  by (simp add: example_item_def)

text \<open>
  Against the claim as the spec states it: the same failing predicate on \<open>mainnet\<close> and
  on \<open>optimism\<close> gives the same entry, which therefore does not tell the network; and
  a call that rejects, which does not resolve truthily either, gives no entry but a
  thrown error.
\<close>

theorem failure_without_network:
  "fst (validate_network (example_validators False)
     (example_item ''0xDEF'' [''contract''] [''mainnet'', ''optimism'']) ''mainnet'' [] []) =
     Inr [\<lparr>ValidationError.address = ''0xDEF'', error = ''is not a Contract''\<rparr>] \<and>
   fst (validate_network (example_validators False)
     (example_item ''0xDEF'' [''contract''] [''mainnet'', ''optimism'']) ''optimism'' [] []) =
     Inr [\<lparr>ValidationError.address = ''0xDEF'', error = ''is not a Contract''\<rparr>] \<and>
   validate_network [''mainnet'' \<mapsto> rejecting]
     (example_item ''0xDEF'' [''contract''] [''mainnet'']) ''mainnet'' [] [] =
     (Inl (Rejected ''rpc failure''), [(''mainnet'', IsContract, ''0xDEF'')])"
  by (simp add: ex_defs validate_network_def check_tag_def)

text \<open>
  Claim C6. The calls are awaited one after the other, so they complete in the one order
  in which they are made: the items in the order of the list, the networks of an item
  in their order, then \<open>eoa\<close>, \<open>contract\<close>, \<open>deployer\<close>. A run that completes has
  made all these calls and gives the failures in the order of the calls, one entry for
  each call that answered \<open>false\<close>: the list is a function of the items and of the
  answers. It is neither sorted nor freed of duplicates.
\<close>

theorem for_items_call_order:
  assumes "for_items vs items [] cs = (Inr errs, cs')"
  shows "cs' = cs @ all_calls items \<and>
         errs = map call_failure (filter (answers_false vs) (all_calls items))"
proof -
  have "list_all (resolves vs) (all_calls items)"
  proof (rule ccontr)
    assume "\<not> list_all (resolves vs) (all_calls items)"
    from for_items_thrown[OF this, of "[]" cs] assms show False by auto
  qed
  from for_items_resolved[OF this, of "[]" cs] assms show ?thesis by simp
qed

theorem for_items_call_order_witness:
  "for_items (example_validators False)
     [example_item ''0xB'' [''eoa''] [''optimism'', ''mainnet''],
      example_item ''0xA'' [''deployer'', ''contract''] [''mainnet'']] [] [] =
     (Inr [\<lparr>ValidationError.address = ''0xB'', error = ''is not an EOA''\<rparr>,
           \<lparr>ValidationError.address = ''0xB'', error = ''is not an EOA''\<rparr>,
           \<lparr>ValidationError.address = ''0xA'', error = ''is not a Contract''\<rparr>,
           \<lparr>ValidationError.address = ''0xA'', error = ''is not a Deployer''\<rparr>],
      [(''optimism'', IsEOA, ''0xB''), (''mainnet'', IsEOA, ''0xB''),
       (''mainnet'', IsContract, ''0xA''), (''mainnet'', IsDeployer, ''0xA'')]) \<and>
   [\<lparr>ValidationError.address = ''0xB'', error = ''is not an EOA''\<rparr>,
    \<lparr>ValidationError.address = ''0xB'', error = ''is not an EOA''\<rparr>,
    \<lparr>ValidationError.address = ''0xA'', error = ''is not a Contract''\<rparr>,
    \<lparr>ValidationError.address = ''0xA'', error = ''is not a Deployer''\<rparr>] =
   map call_failure (filter (answers_false (example_validators False))
     (all_calls [example_item ''0xB'' [''eoa''] [''optimism'', ''mainnet''],
                 example_item ''0xA'' [''deployer'', ''contract''] [''mainnet'']]))"
proof -
  have run: "for_items (example_validators False)
     [example_item ''0xB'' [''eoa''] [''optimism'', ''mainnet''],
      example_item ''0xA'' [''deployer'', ''contract''] [''mainnet'']] [] [] =
     (Inr [\<lparr>ValidationError.address = ''0xB'', error = ''is not an EOA''\<rparr>,
           \<lparr>ValidationError.address = ''0xB'', error = ''is not an EOA''\<rparr>,
           \<lparr>ValidationError.address = ''0xA'', error = ''is not a Contract''\<rparr>,
           \<lparr>ValidationError.address = ''0xA'', error = ''is not a Deployer''\<rparr>],
      [(''optimism'', IsEOA, ''0xB''), (''mainnet'', IsEOA, ''0xB''),
       (''mainnet'', IsContract, ''0xA''), (''mainnet'', IsDeployer, ''0xA'')])"
    by (simp add: ex_defs validate_network_def check_tag_def)
  from for_items_call_order[OF run] run show ?thesis by simp
qed

text \<open>
  Against the claim as the spec states it: an address that fails the same predicate on
  two networks appears twice, and \<open>0xB\<close> stays before \<open>0xA\<close>.
\<close>

theorem failure_list_not_a_sorted_set:
  "for_items (example_validators False)
     [example_item ''0xB'' [''eoa''] [''optimism'', ''mainnet''],
      example_item ''0xA'' [''deployer'', ''contract''] [''mainnet'']] [] [] =
     (Inr [\<lparr>ValidationError.address = ''0xB'', error = ''is not an EOA''\<rparr>,
           \<lparr>ValidationError.address = ''0xB'', error = ''is not an EOA''\<rparr>,
           \<lparr>ValidationError.address = ''0xA'', error = ''is not a Contract''\<rparr>,
           \<lparr>ValidationError.address = ''0xA'', error = ''is not a Deployer''\<rparr>],
      [(''optimism'', IsEOA, ''0xB''), (''mainnet'', IsEOA, ''0xB''),
       (''mainnet'', IsContract, ''0xA''), (''mainnet'', IsDeployer, ''0xA'')]) \<and>
   \<not> distinct
       [\<lparr>ValidationError.address = ''0xB'', error = ''is not an EOA''\<rparr>,
        \<lparr>ValidationError.address = ''0xB'', error = ''is not an EOA''\<rparr>,
        \<lparr>ValidationError.address = ''0xA'', error = ''is not a Contract''\<rparr>,
        \<lparr>ValidationError.address = ''0xA'', error = ''is not a Deployer''\<rparr>] \<and>
   \<not> sorted (map ValidationError.address
       [\<lparr>ValidationError.address = ''0xB'', error = ''is not an EOA''\<rparr>,
        \<lparr>ValidationError.address = ''0xB'', error = ''is not an EOA''\<rparr>,
        \<lparr>ValidationError.address = ''0xA'', error = ''is not a Contract''\<rparr>,
        \<lparr>ValidationError.address = ''0xA'', error = ''is not a Deployer''\<rparr>])"
  by (simp add: ex_defs validate_network_def check_tag_def)

text \<open>
  Claim C9. \<open>validate\<close> starts with \<open>loadValidators\<close>. When either of
  \<open>OPTIMISM_RPC_URL\<close> and \<open>MAINNET_RPC_URL\<close> is missing (unset, or set to the empty
  string, which \<open>!v\<close> treats alike), it throws the error "RPC URLs are required to do
  validation" with the object and the outside world untouched, so before any validator
  call. When both are set, the validators stored are the Optimism validator under
  \<open>optimism\<close> and the Ethereum validator under \<open>mainnet\<close>, each built from its URL;
  on an object that \<open>init\<close> built, these are the only two networks registered.
\<close>

theorem validate_requires_rpc_urls:
  "(falsy (env ''OPTIMISM_RPC_URL'') \<or> falsy (env ''MAINNET_RPC_URL'') \<longrightarrow>
      validate pkg env this w =
        (Inl (Error ''RPC URLs are required to do validation''), this, w)) \<and>
   (\<not> falsy (env ''OPTIMISM_RPC_URL'') \<and> \<not> falsy (env ''MAINNET_RPC_URL'') \<longrightarrow>
      (\<exists>o_url m_url.
         env ''OPTIMISM_RPC_URL'' = Some o_url \<and> env ''MAINNET_RPC_URL'' = Some m_url \<and>
         validators (fst (snd (validate pkg env this w))) =
           (validators this)(''optimism'' \<mapsto> OptimismValidator pkg o_url,
                             ''mainnet'' \<mapsto> EthereumValidator pkg m_url)) \<and>
      dom (validators (fst (snd (validate pkg env
             (init pr_number artifactsSummary changed_projects to_validate) w)))) =
        {''optimism'', ''mainnet''})"
proof (intro conjI impI)
  assume "falsy (env ''OPTIMISM_RPC_URL'') \<or> falsy (env ''MAINNET_RPC_URL'')"
  then show "validate pkg env this w =
      (Inl (Error ''RPC URLs are required to do validation''), this, w)"
    by (rule validate_missing_url)
next
  assume "\<not> falsy (env ''OPTIMISM_RPC_URL'') \<and> \<not> falsy (env ''MAINNET_RPC_URL'')"
  then obtain o_url m_url where u: "env ''OPTIMISM_RPC_URL'' = Some o_url" "o_url \<noteq> []"
      "env ''MAINNET_RPC_URL'' = Some m_url" "m_url \<noteq> []"
    unfolding falsy_iff by blast
  show "\<exists>o_url m_url.
         env ''OPTIMISM_RPC_URL'' = Some o_url \<and> env ''MAINNET_RPC_URL'' = Some m_url \<and>
         validators (fst (snd (validate pkg env this w))) =
           (validators this)(''optimism'' \<mapsto> OptimismValidator pkg o_url,
                             ''mainnet'' \<mapsto> EthereumValidator pkg m_url)"
    using u by (simp add: validate_object loadValidators_urls[OF u])
next
  assume "\<not> falsy (env ''OPTIMISM_RPC_URL'') \<and> \<not> falsy (env ''MAINNET_RPC_URL'')"
  then obtain o_url m_url where u: "env ''OPTIMISM_RPC_URL'' = Some o_url" "o_url \<noteq> []"
      "env ''MAINNET_RPC_URL'' = Some m_url" "m_url \<noteq> []"
    unfolding falsy_iff by blast
  show "dom (validators (fst (snd (validate pkg env
             (init pr_number artifactsSummary changed_projects to_validate) w)))) =
        {''optimism'', ''mainnet''}"
    by (simp add: validate_object loadValidators_urls[OF u] init_def insert_commute)
qed

theorem validate_requires_rpc_urls_witness:
  "validate (example_package True) [''OPTIMISM_RPC_URL'' \<mapsto> ''https://optimism.example'']
     (init 7 [] [] [example_item ''0x1'' [''eoa''] [''mainnet'']]) empty_world =
     (Inl (Error ''RPC URLs are required to do validation''),
      init 7 [] [] [example_item ''0x1'' [''eoa''] [''mainnet'']], empty_world) \<and>
   validate (example_package True)
     [''OPTIMISM_RPC_URL'' \<mapsto> [], ''MAINNET_RPC_URL'' \<mapsto> ''https://mainnet.example'']
     (init 7 [] [] [example_item ''0x1'' [''eoa''] [''mainnet'']]) empty_world =
     (Inl (Error ''RPC URLs are required to do validation''),
      init 7 [] [] [example_item ''0x1'' [''eoa''] [''mainnet'']], empty_world) \<and>
   dom (validators (fst (snd (validate (example_package True) example_env
     (init 7 [] [] [example_item ''0x1'' [''eoa''] [''mainnet'']]) empty_world)))) =
     {''optimism'', ''mainnet''}"
  using validate_requires_rpc_urls[of "[''OPTIMISM_RPC_URL'' \<mapsto> ''https://optimism.example'']"
      "example_package True" "init 7 [] [] [example_item ''0x1'' [''eoa''] [''mainnet'']]"
      empty_world 7 "[]" "[]" "[example_item ''0x1'' [''eoa''] [''mainnet'']]"]
    validate_requires_rpc_urls[of
      "[''OPTIMISM_RPC_URL'' \<mapsto> [], ''MAINNET_RPC_URL'' \<mapsto> ''https://mainnet.example'']"
      "example_package True" "init 7 [] [] [example_item ''0x1'' [''eoa''] [''mainnet'']]"
      empty_world 7 "[]" "[]" "[example_item ''0x1'' [''eoa''] [''mainnet'']]"]
    validate_requires_rpc_urls[of example_env
      "example_package True" "init 7 [] [] [example_item ''0x1'' [''eoa''] [''mainnet'']]"
      empty_world 7 "[]" "[]" "[example_item ''0x1'' [''eoa''] [''mainnet'']]"]
  by (simp add: example_env_def init_def insert_commute)

text \<open>
  Claim C10. What \<open>validate\<close> leaves on the pull request, case by case: nothing when
  \<open>loadValidators\<close> throws or when the loops throw; when the loops complete, one
  validation-errors comment with the collected failures if there is at least one, and
  nothing otherwise. When the RPC URLs are set, every call that the items ask for
  resolves and none answers \<open>false\<close>, \<open>validate\<close> completes without error and posts
  nothing.
\<close>

theorem validate_comment:
  "(case loadValidators pkg env this of
      Inl e \<Rightarrow> validate pkg env this w = (Inl e, this, w)
    | Inr this1 \<Rightarrow>
        (case for_items (validators this1) (toValidate (changes this1)) [] (calls w) of
           (Inl e, cs) \<Rightarrow> validate pkg env this w = (Inl e, this1, w\<lparr>calls := cs\<rparr>)
         | (Inr errs, cs) \<Rightarrow>
             validate pkg env this w =
               (Inr (), this1,
                w\<lparr>calls := cs,
                  comments := comments w @
                    (if errs = [] then [] else [(pr this, ValidationErrorsMessage errs)])\<rparr>))) \<and>
   (\<forall>this1. loadValidators pkg env this = Inr this1 \<and>
      list_all (resolves (validators this1)) (all_calls (toValidate (changes this1))) \<and>
      list_all (\<lambda>c. \<not> answers_false (validators this1) c)
        (all_calls (toValidate (changes this1))) \<longrightarrow>
      validate pkg env this w =
        (Inr (), this1, w\<lparr>calls := calls w @ all_calls (toValidate (changes this1))\<rparr>))"
proof (intro conjI allI impI)
  show "case loadValidators pkg env this of
      Inl e \<Rightarrow> validate pkg env this w = (Inl e, this, w)
    | Inr this1 \<Rightarrow>
        (case for_items (validators this1) (toValidate (changes this1)) [] (calls w) of
           (Inl e, cs) \<Rightarrow> validate pkg env this w = (Inl e, this1, w\<lparr>calls := cs\<rparr>)
         | (Inr errs, cs) \<Rightarrow>
             validate pkg env this w =
               (Inr (), this1,
                w\<lparr>calls := cs,
                  comments := comments w @
                    (if errs = [] then [] else [(pr this, ValidationErrorsMessage errs)])\<rparr>))"
    by (auto simp: validate_def loadValidators_pr split: sum.splits prod.splits)
next
  fix this1
  assume a: "loadValidators pkg env this = Inr this1 \<and>
      list_all (resolves (validators this1)) (all_calls (toValidate (changes this1))) \<and>
      list_all (\<lambda>c. \<not> answers_false (validators this1) c)
        (all_calls (toValidate (changes this1)))"
  then have "filter (answers_false (validators this1)) (all_calls (toValidate (changes this1))) = []"
    by (simp add: list_all_iff filter_empty_conv)
  with a for_items_resolved[of "validators this1" "toValidate (changes this1)" "[]" "calls w"]
  show "validate pkg env this w =
        (Inr (), this1, w\<lparr>calls := calls w @ all_calls (toValidate (changes this1))\<rparr>)"
    by (simp add: validate_def)
qed

theorem validate_comment_witness:
  "validate (example_package True) example_env
     (init 7 [] [] [example_item ''0x1'' [''eoa''] [''mainnet'']]) empty_world =
     (Inr (),
      (init 7 [] [] [example_item ''0x1'' [''eoa''] [''mainnet'']])
        \<lparr>validators := [''optimism'' \<mapsto> answering True, ''mainnet'' \<mapsto> answering True]\<rparr>,
      \<lparr>calls = [(''mainnet'', IsEOA, ''0x1'')], comments = []\<rparr>) \<and>
   snd (snd (validate (example_package False) example_env
     (init 7 [] [] [example_item ''0x1'' [''eoa''] [''mainnet'']]) empty_world)) =
     \<lparr>calls = [(''mainnet'', IsEOA, ''0x1'')],
      comments = [(7, ValidationErrorsMessage
                        [\<lparr>ValidationError.address = ''0x1'', error = ''is not an EOA''\<rparr>])]\<rparr>"
  using validate_comment[of "example_package True" example_env
      "init 7 [] [] [example_item ''0x1'' [''eoa''] [''mainnet'']]" empty_world]
    validate_comment[of "example_package False" example_env
      "init 7 [] [] [example_item ''0x1'' [''eoa''] [''mainnet'']]" empty_world]
  by (simp add: loadValidators_def example_env_def example_package_def init_def
      initialize_def empty_world_def example_item_def answering_def validate_network_def
      check_tag_def all_calls_def expected_calls_def matching_def)

text \<open>
  Against the claim as first stated (every invoked predicate resolves truthily, hence no
  error): the only call made answers \<open>true\<close>, and \<open>validate\<close> still throws, on the
  second item, whose network \<open>base\<close> has no validator.
\<close>

theorem validate_throws_with_all_answers_true:
  "fst (validate (example_package True) example_env
      (init 7 [] []
         [example_item ''0x1'' [''eoa''] [''mainnet''],
          example_item ''0x2'' [''contract''] [''base'']]) empty_world) = Inl TypeError \<and>
   snd (snd (validate (example_package True) example_env
      (init 7 [] []
         [example_item ''0x1'' [''eoa''] [''mainnet''],
          example_item ''0x2'' [''contract''] [''base'']]) empty_world)) =
     \<lparr>calls = [(''mainnet'', IsEOA, ''0x1'')], comments = []\<rparr> \<and>
   invoke IsEOA (answering True) ''0x1'' = Inr True"
  by (simp add: validate_def loadValidators_def example_env_def example_package_def init_def
      initialize_def empty_world_def example_item_def answering_def validate_network_def
      check_tag_def)

end
